theory Spec2Isabelle
  imports Main
begin

section \<open>The Android target of buildozer: a shallow embedding\<close>

text \<open>
  The theory embeds the methods of \<^verbatim>\<open>TargetAndroid\<close>
  (\<^verbatim>\<open>buildozer/targets/android.py\<close>) that install the Android tool chain, list the
  connected devices and choose the release mode. A method \<^verbatim>\<open>_name\<close> of the source is the
  constant \<^verbatim>\<open>name\<close> here (an Isabelle name cannot start with an underscore).
\<close>

subsection \<open>Python strings\<close>

text \<open>
  A Python \<^verbatim>\<open>str\<close> is a \<^typ>\<open>string\<close>: a list of characters, read as code points
  below 256. The functions below are the \<^verbatim>\<open>str\<close> methods the source calls.
\<close>

definition startswith :: "string \<Rightarrow> string \<Rightarrow> bool" where
  "startswith s p = (take (length p) s = p)"

text \<open>\<^verbatim>\<open>sub in s\<close>: \<^verbatim>\<open>sub\<close> occurs in \<^verbatim>\<open>s\<close>.\<close>

fun contains :: "string \<Rightarrow> string \<Rightarrow> bool" where
  "contains [] sub = (sub = [])"
| "contains (c # cs) sub = (startswith (c # cs) sub \<or> contains cs sub)"



text \<open>
  The characters \<^verbatim>\<open>str.isspace\<close> accepts, among the code points below 256: tab, line
  feed, vertical tab, form feed, carriage return, the four separators 28 to 31, the
  space, NEL and the no-break space.
\<close>

definition isspace :: "char \<Rightarrow> bool" where
  "isspace c = (c \<in> set [CHR 0x09, CHR 0x0A, CHR 0x0B, CHR 0x0C, CHR 0x0D, CHR 0x1C,
     CHR 0x1D, CHR 0x1E, CHR 0x1F, CHR 0x20, CHR 0x85, CHR 0xA0])"

text \<open>\<^verbatim>\<open>s.strip()\<close>\<close>

definition strip :: "string \<Rightarrow> string" where
  "strip s = rev (dropWhile isspace (rev (dropWhile isspace s)))"

text \<open>\<^verbatim>\<open>s.split(sep)\<close> for a separator of one character: never an empty list.\<close>

fun split_char :: "char \<Rightarrow> string \<Rightarrow> string list" where
  "split_char sep [] = [[]]"
| "split_char sep (c # cs) =
     (if c = sep then [] # split_char sep cs
      else (case split_char sep cs of
              [] \<Rightarrow> [[c]]
            | x # xs \<Rightarrow> (c # x) # xs))"

text \<open>
  \<^verbatim>\<open>s.split()\<close>: the fields between runs of white space, none of them empty. The
  first argument holds the field being read, reversed.
\<close>

fun split_ws_from :: "string \<Rightarrow> string \<Rightarrow> string list" where
  "split_ws_from cur [] = (if cur = [] then [] else [rev cur])"
| "split_ws_from cur (c # cs) =
     (if isspace c then (if cur = [] then split_ws_from [] cs
                         else rev cur # split_ws_from [] cs)
      else split_ws_from (c # cur) cs)"

definition split_ws :: "string \<Rightarrow> string list" where
  "split_ws s = split_ws_from [] s"

text \<open>
  \<^verbatim>\<open>s.splitlines()\<close>: the line boundaries below code point 256 are line feed,
  carriage return (with a following line feed it is one boundary), vertical tab, form
  feed, the separators 28 to 30 and NEL. The boundaries are not kept, and a boundary at
  the end of the text opens no last empty line.
\<close>

definition is_linebreak :: "char \<Rightarrow> bool" where
  "is_linebreak c = (c \<in> set [CHR 0x0A, CHR 0x0D, CHR 0x0B, CHR 0x0C, CHR 0x1C, CHR 0x1D,
     CHR 0x1E, CHR 0x85])"

fun splitlines_from :: "string \<Rightarrow> string \<Rightarrow> string list" where
  "splitlines_from cur [] = (if cur = [] then [] else [rev cur])"
| "splitlines_from cur [c] =
     (if is_linebreak c then [rev cur] else [rev (c # cur)])"
| "splitlines_from cur (c # d # cs) =
     (if c = CHR 0x0D \<and> d = CHR 0x0A then rev cur # splitlines_from [] cs
      else if is_linebreak c then rev cur # splitlines_from [] (d # cs)
      else splitlines_from (c # cur) (d # cs))"

definition splitlines :: "string \<Rightarrow> string list" where
  "splitlines s = splitlines_from [] s"

text \<open>
  \<^verbatim>\<open>int(re.search(r'(\d+)', s).group(1))\<close>: the first run of decimal digits of
  \<^verbatim>\<open>s\<close> as a number; \<^verbatim>\<open>re.search\<close> returns \<^verbatim>\<open>None\<close> when there is no digit, and
  \<^verbatim>\<open>.group\<close> then raises.
\<close>

definition isdigit :: "char \<Rightarrow> bool" where
  "isdigit c = (c \<in> set ''0123456789'')"

definition first_digits :: "string \<Rightarrow> string" where
  "first_digits s = takeWhile isdigit (dropWhile (\<lambda>c. \<not> isdigit c) s)"

definition int_of_digits :: "string \<Rightarrow> nat" where
  "int_of_digits ds = foldl (\<lambda>n c. 10 * n + (of_char c - 48)) 0 ds"

text \<open>\<^verbatim>\<open>os.path.join(a, b)\<close> of \<^verbatim>\<open>posixpath\<close>.\<close>

definition join :: "string \<Rightarrow> string \<Rightarrow> string" where
  "join a b =
     (if startswith b ''/'' then b
      else if a = [] \<or> last a = CHR ''/'' then a @ b
      else a @ ''/'' @ b)"


subsection \<open>Errors, events and the state of the target\<close>

text \<open>
  An exception is a value: \<^verbatim>\<open>ExternalError\<close> stands for whatever a collaborator
  outside the module raises (a failed command, an I/O error).
\<close>

datatype error =
    BuildozerException string
  | SystemError string
  | SystemExit int
  | IndexError
  | AssertionError string
  | AttributeError
  | ExternalError string

datatype level = Debug | Info | Error

text \<open>
  What the module does to the outside is kept as a trace: the messages it gives to
  \<^verbatim>\<open>self.logger\<close> and the calls of \<^verbatim>\<open>buildops\<close>, \<^verbatim>\<open>os\<close> and \<^verbatim>\<open>pexpect\<close> that
  act on the host. Queries (does a path exist, what does a file hold) leave no event.
  The keyword arguments of a command are listed as written in the source, except
  \<^verbatim>\<open>env\<close>, which is always \<^verbatim>\<open>self.buildozer.environ\<close>.
\<close>

type_synonym kwargs = "(string \<times> string) list"

datatype event =
    Log level string
  | Cmd "string list" kwargs
  | CmdExpect "string list" kwargs
  | Download string string string
  | FileExtract string string
  | Rename string string string
  | Rmdir string
  | Makedirs string
  | Checkbin string string
  | Sendline nat string
  | StateSync

text \<open>The values a JSON store holds.\<close>

datatype jvalue =
    JNull
  | JBool bool
  | JNum int
  | JStr string
  | JList "jvalue list"
  | JDict "(string \<times> jvalue) list"

text \<open>
  The mutable state a method can touch: the host (\<^verbatim>\<open>world\<close>, of a type the model
  leaves open), the trace, \<^verbatim>\<open>os.environ\<close>, the store \<^verbatim>\<open>self.buildozer.state\<close>, and
  the attributes \<^verbatim>\<open>_serials\<close>, \<^verbatim>\<open>p4a_recommended_ndk_version\<close> and
  \<^verbatim>\<open>artifact_format\<close> of the target object.
\<close>

record 'w target =
  world :: 'w
  trace :: "event list"
  environ :: "string \<rightharpoonup> string"
  buildozer_state :: "string \<rightharpoonup> jvalue"
  priv_serials :: "string list option"
  p4a_recommended_ndk_version :: "string option"
  artifact_format :: string

type_synonym ('s, 'a) exec = "'s \<Rightarrow> (error + 'a) \<times> 's"

definition ret :: "'a \<Rightarrow> ('s, 'a) exec" where
  "ret x s = (Inr x, s)"

definition raise :: "error \<Rightarrow> ('s, 'a) exec" where
  "raise e s = (Inl e, s)"

definition bnd :: "('s, 'a) exec \<Rightarrow> ('a \<Rightarrow> ('s, 'b) exec) \<Rightarrow> ('s, 'b) exec" where
  "bnd m f s = (case m s of (Inl e, s') \<Rightarrow> (Inl e, s') | (Inr x, s') \<Rightarrow> f x s')"

definition log :: "level \<Rightarrow> string \<Rightarrow> 'w target \<Rightarrow> 'w target" where
  "log lvl msg s = s\<lparr>trace := trace s @ [Log lvl msg]\<rparr>"

text \<open>A call that acts on the host: the event is recorded, the host changes.\<close>

definition call :: "event \<Rightarrow> ('w \<Rightarrow> (error + 'a) \<times> 'w) \<Rightarrow> ('w target, 'a) exec" where
  "call ev f s = (case f (world s) of (r, w') \<Rightarrow> (r, s\<lparr>world := w', trace := trace s @ [ev]\<rparr>))"

subsection \<open>Release mode\<close>

text \<open>
  \<^verbatim>\<open>check_p4a_sign_env\<close>: the loop over the four keys, with \<^verbatim>\<open>check\<close> as the loop
  variable. A missing key is reported only when \<^verbatim>\<open>error\<close> is set.
\<close>

fun check_p4a_sign_env_loop :: "bool \<Rightarrow> string list \<Rightarrow> bool \<Rightarrow> 'w target \<Rightarrow> bool \<times> 'w target" where
  "check_p4a_sign_env_loop err [] check s = (check, s)"
| "check_p4a_sign_env_loop err (key # keys) check s =
     (let k = ''P4A_RELEASE_'' @ key in
      if environ s k = None
      then check_p4a_sign_env_loop err keys False
             (if err
              then log Error (''Asking for release but '' @ k @ '' is missing--sign will not be passed'') s
              else s)
      else check_p4a_sign_env_loop err keys check s)"

definition check_p4a_sign_env :: "bool \<Rightarrow> 'w target \<Rightarrow> bool \<times> 'w target" where
  "check_p4a_sign_env err s =
     check_p4a_sign_env_loop err [''KEYALIAS'', ''KEYSTORE_PASSWD'', ''KEYSTORE'', ''KEYALIAS_PASSWD''] True s"

definition get_release_mode :: "'w target \<Rightarrow> string \<times> 'w target" where
  "get_release_mode s =
     (case check_p4a_sign_env False s of
        (check, s') \<Rightarrow>
          (if check \<or> artifact_format s' \<in> set [''aab'', ''aar''] then (''release'', s')
           else (''release-unsigned'', s')))"

subsection \<open>The collaborators outside the module\<close>

text \<open>
  \<^verbatim>\<open>buildops\<close>, \<^verbatim>\<open>os\<close>, \<^verbatim>\<open>pexpect\<close> and \<^verbatim>\<open>buildozer.libs.version\<close> are not part of
  the module: they are parameters of the model, functions of the host \<^typ>\<open>'w\<close>. A
  version is a value of an ordered type \<^typ>\<open>'v\<close>, made by \<^verbatim>\<open>parse\<close> and printed by
  \<^verbatim>\<open>str\<close>. A regular file can be read: \<^verbatim>\<open>read_lines\<close> gives its lines (each with
  its line feed, as iterating over the open file does) and \<^verbatim>\<open>None\<close> where the path
  is no regular file. \<^verbatim>\<open>install_reqs\<close> stands for the regular expression and
  \<^verbatim>\<open>ast.literal_eval\<close> that read the list \<^verbatim>\<open>install_reqs\<close> out of a \<^verbatim>\<open>setup.py\<close>.
\<close>

record cmd_result =
  stdout :: string
  stderr :: string
  return_code :: int

record ('w, 'v) ops =
  file_exists :: "string \<Rightarrow> 'w \<Rightarrow> bool"
  path_exists :: "string \<Rightarrow> 'w \<Rightarrow> bool"
  read_lines :: "string \<Rightarrow> 'w \<Rightarrow> string list option"
  listdir :: "string \<Rightarrow> 'w \<Rightarrow> error + string list"
  expanduser :: "string \<Rightarrow> 'w \<Rightarrow> string"
  makedirs :: "string \<Rightarrow> 'w \<Rightarrow> (error + unit) \<times> 'w"
  download :: "string \<Rightarrow> string \<Rightarrow> string \<Rightarrow> 'w \<Rightarrow> (error + unit) \<times> 'w"
  file_extract :: "string \<Rightarrow> string \<Rightarrow> 'w \<Rightarrow> (error + unit) \<times> 'w"
  rename :: "string \<Rightarrow> string \<Rightarrow> string \<Rightarrow> 'w \<Rightarrow> (error + unit) \<times> 'w"
  rmdir :: "string \<Rightarrow> 'w \<Rightarrow> (error + unit) \<times> 'w"
  checkbin :: "string \<Rightarrow> string \<Rightarrow> 'w \<Rightarrow> (error + unit) \<times> 'w"
  cmd :: "string list \<Rightarrow> kwargs \<Rightarrow> 'w \<Rightarrow> (error + cmd_result) \<times> 'w"
  cmd_expect :: "string list \<Rightarrow> kwargs \<Rightarrow> 'w \<Rightarrow> (error + nat) \<times> 'w"
  isalive :: "nat \<Rightarrow> 'w \<Rightarrow> (error + bool) \<times> 'w"
  expect :: "nat \<Rightarrow> 'w \<Rightarrow> (error + nat) \<times> 'w"
  sendline :: "nat \<Rightarrow> string \<Rightarrow> 'w \<Rightarrow> (error + unit) \<times> 'w"
  parse :: "string \<Rightarrow> error + 'v"
  version_str :: "'v \<Rightarrow> string"
  install_reqs :: "string \<Rightarrow> error + string list"

definition isfile :: "('w, 'v) ops \<Rightarrow> string \<Rightarrow> 'w \<Rightarrow> bool" where
  "isfile ops p w = (read_lines ops p w \<noteq> None)"

text \<open>A call that may change the host and is no action of the module (a poll of a child).\<close>

definition poll :: "('w \<Rightarrow> (error + 'a) \<times> 'w) \<Rightarrow> ('w target, 'a) exec" where
  "poll f s = (case f (world s) of (r, w') \<Rightarrow> (r, s\<lparr>world := w'\<rparr>))"

definition logm :: "level \<Rightarrow> string \<Rightarrow> ('w target, unit) exec" where
  "logm lvl msg s = (Inr (), log lvl msg s)"

definition seq :: "('s, unit) exec \<Rightarrow> ('s, 'b) exec \<Rightarrow> ('s, 'b) exec" where
  "seq m n = bnd m (\<lambda>_. n)"

subsection \<open>The configuration\<close>

text \<open>
  The host facts the module reads (\<^verbatim>\<open>sys.platform\<close>, \<^verbatim>\<open>os.uname()[4]\<close>,
  \<^verbatim>\<open>8 * struct.calcsize("P")\<close>, \<^verbatim>\<open>platform.architecture()[0]\<close>, \<^verbatim>\<open>sys.executable\<close>),
  the directories of the buildozer object, the values of the properties of the same
  names (\<^verbatim>\<open>android_api\<close> to \<^verbatim>\<open>apache_ant_dir\<close>, \<^verbatim>\<open>adb_executable\<close>, \<^verbatim>\<open>adb_args\<close>,
  \<^verbatim>\<open>platform_update\<close>), the two boolean options read with \<^verbatim>\<open>getbooldefault\<close>, and
  the options of the section \<^verbatim>\<open>app\<close> that \<^verbatim>\<open>getdefault\<close> looks up. Reading a property
  is no action of the model; the one property that does more than look a value up,
  \<^verbatim>\<open>p4a_recommended_android_ndk\<close> (the default of \<^verbatim>\<open>android_ndk_version\<close>), is modelled
  on its own below.
\<close>

record config =
  sys_platform :: string
  uname_machine :: string
  pointer_bits :: nat
  architecture_bits :: string
  executable :: string
  global_platform_dir :: string
  platform_dir :: string
  android_api :: string
  android_minapi :: string
  android_ndk_version :: string
  android_sdk_dir :: string
  android_ndk_dir :: string
  apache_ant_dir :: string
  adb_executable :: string
  adb_args :: "string list"
  platform_update :: bool
  skip_update :: bool
  accept_sdk_license :: bool
  app :: "string \<rightharpoonup> string"






subsection \<open>The installers of Ant, the SDK and the NDK\<close>




text \<open>
  \<^verbatim>\<open>_install_android_ndk\<close>, in three parts: the number \<^verbatim>\<open>_version\<close>, the name of the
  archive (the lines from \<^verbatim>\<open>is_darwin = ...\<close> to \<^verbatim>\<open>archive = archive.format(...)\<close>),
  and the installer that uses both. The Windows template
  \<^verbatim>\<open>'android-ndk-r{0}-windows.zip'\<close> has no field \<^verbatim>\<open>{1}\<close>: \<^verbatim>\<open>format\<close> drops the
  architecture there. On Windows \<^verbatim>\<open>is_64\<close> is \<^verbatim>\<open>8 * struct.calcsize("P") == 64\<close>,
  elsewhere \<^verbatim>\<open>'64' in os.uname()[4]\<close>.
\<close>

definition ndk_major :: "string \<Rightarrow> error + nat" where
  "ndk_major version =
     (if first_digits version = [] then Inl AttributeError
      else Inr (int_of_digits (first_digits version)))"

definition ndk_archive :: "config \<Rightarrow> nat \<Rightarrow> error + string" where
  "ndk_archive cfg major =
     (let plat = sys_platform cfg;
          version = android_ndk_version cfg;
          is_darwin = (plat = ''darwin'');
          is_linux = startswith plat ''linux'';
          is_freebsd = startswith plat ''freebsd'' in
      if plat \<in> set [''win32'', ''cygwin'']
      then
        (let is_64 = (pointer_bits cfg = 64);
             architecture = (if is_64 then ''x86_64'' else ''x86'');
             architecture = (if major \<ge> 23 then [] else ''-'' @ architecture) in
         Inr (''android-ndk-r'' @ version @ ''-windows.zip''))
      else if is_darwin \<or> is_linux \<or> is_freebsd
      then
        (let host = (if is_linux \<or> is_freebsd then ''linux'' else ''darwin'');
             ext = (if version \<in> set [''10c'', ''10d'', ''10e''] then ''bin''
                    else if major \<le> 10 then ''tar.bz2''
                    else ''zip'');
             is_64 = contains (uname_machine cfg) ''64'';
             architecture = (if is_64 then ''x86_64'' else ''x86'');
             architecture = (if major \<ge> 23 then [] else ''-'' @ architecture) in
         Inr (''android-ndk-r'' @ version @ ''-'' @ host @ architecture @ ''.'' @ ext))
      else Inl (SystemError (''Unsupported platform: '' @ plat)))"

definition install_android_ndk :: "('w, 'v) ops \<Rightarrow> config \<Rightarrow> ('w target, string) exec" where
  "install_android_ndk ops cfg s =
     (let ndk_dir = android_ndk_dir cfg in
      if file_exists ops ndk_dir (world s)
      then ret ndk_dir (log Info (''Android NDK found at '' @ ndk_dir) s)
      else
        (case ndk_major (android_ndk_version cfg) of
           Inl e \<Rightarrow> raise e s
         | Inr major \<Rightarrow>
            seq (logm Info ''Android NDK is missing, downloading'')
              (case ndk_archive cfg major of
                 Inl e \<Rightarrow> raise e
               | Inr archive \<Rightarrow>
                  (let unpacked = ''android-ndk-r'' @ android_ndk_version cfg;
                       url = (if major \<ge> 11 then ''https://dl.google.com/android/repository/''
                              else ''https://dl.google.com/android/ndk/'');
                       cwd = global_platform_dir cfg in
                   seq (call (Download url archive cwd) (download ops url archive cwd))
                  (seq (logm Info ''Unpacking Android NDK'')
                  (seq (call (FileExtract archive cwd) (file_extract ops archive cwd))
                  (seq (call (Rename unpacked ndk_dir cwd) (rename ops unpacked ndk_dir cwd))
                  (seq (logm Info ''Android NDK installation done.'')
                       (ret ndk_dir))))))) s))"

subsection \<open>The python-for-android checkout\<close>

text \<open>
  A value is true in a condition when it is neither \<^verbatim>\<open>None\<close> nor the empty string.
\<close>

definition truthy :: "string option \<Rightarrow> bool" where
  "truthy v = (case v of None \<Rightarrow> False | Some x \<Rightarrow> x \<noteq> [])"
















subsection \<open>The serials of the connected devices\<close>

text \<open>
  The loop of \<^verbatim>\<open>serials\<close> over the lines of \<^verbatim>\<open>adb devices\<close>; \<^verbatim>\<open>serial.split()[0]\<close>
  raises on a line of white space only.
\<close>

fun serials_loop :: "string list \<Rightarrow> string list \<Rightarrow> error + string list" where
  "serials_loop [] serials = Inr serials"
| "serials_loop (serial # lines) serials =
     (if serial = [] then serials_loop lines serials
      else if startswith serial ''*'' \<or> startswith serial ''List '' then serials_loop lines serials
      else (case split_ws serial of
              [] \<Rightarrow> Inl IndexError
            | field # _ \<Rightarrow> serials_loop lines (serials @ [field])))"

definition serials :: "('w, 'v) ops \<Rightarrow> config \<Rightarrow> ('w target, string list) exec" where
  "serials ops cfg s =
     (case priv_serials s of
        Some cached \<Rightarrow> ret cached s
      | None \<Rightarrow>
         (let serial = environ s ''ANDROID_SERIAL'' in
          if truthy serial then ret (split_char CHR '','' (the serial)) s
          else
            (let command = adb_executable cfg # adb_args cfg @ [''devices''] in
             bnd (call (Cmd command [(''get_stdout'', ''True'')])
                       (cmd ops command [(''get_stdout'', ''True'')]))
               (\<lambda>r. case serials_loop (splitlines (stdout r)) [] of
                       Inl e \<Rightarrow> raise e
                     | Inr found \<Rightarrow> (\<lambda>s1. (Inr found, s1\<lparr>priv_serials := Some found\<rparr>))) s)))"

subsection \<open>The SDK packages\<close>

text \<open>
  \<^verbatim>\<open>sdkmanager_path\<close> and \<^verbatim>\<open>_sdkmanager\<close>. The source has one \<^verbatim>\<open>_sdkmanager\<close>, which
  returns a child process when called with \<^verbatim>\<open>return_child\<close> and the result of the
  command otherwise; the model has one function for each. \<^verbatim>\<open>kw\<close> are the keyword
  arguments of the caller (never \<^verbatim>\<open>cwd\<close> or \<^verbatim>\<open>get_stdout\<close> in this module).
\<close>

definition sdkmanager_path :: "('w, 'v) ops \<Rightarrow> config \<Rightarrow> 'w \<Rightarrow> error + string" where
  "sdkmanager_path ops cfg w =
     (let sdk_manager_name = (if sys_platform cfg \<in> set [''win32'', ''cygwin'']
                              then ''sdkmanager.bat'' else ''sdkmanager'');
          path = join (join (join (android_sdk_dir cfg) ''tools'') ''bin'') sdk_manager_name in
      if \<not> isfile ops path w
      then Inl (BuildozerException (''sdkmanager path '' @ [CHR 0x22] @ path @ [CHR 0x22]
                  @ '' does not exist, sdkmanager is not installed''))
      else Inr path)"

definition sdkmanager ::
    "('w, 'v) ops \<Rightarrow> config \<Rightarrow> string list \<Rightarrow> kwargs \<Rightarrow> ('w target, cmd_result) exec" where
  "sdkmanager ops cfg args kw s =
     (let sdk_dir = android_sdk_dir cfg in
      case sdkmanager_path ops cfg (world s) of
        Inl e \<Rightarrow> raise e s
      | Inr path \<Rightarrow>
         (let command = [path, ''--sdk_root='' @ sdk_dir] @ args;
              kw' = kw @ [(''cwd'', sdk_dir), (''get_stdout'', ''True'')] in
          call (Cmd command kw') (cmd ops command kw') s))"

definition sdkmanager_child ::
    "('w, 'v) ops \<Rightarrow> config \<Rightarrow> string list \<Rightarrow> kwargs \<Rightarrow> ('w target, nat) exec" where
  "sdkmanager_child ops cfg args kw s =
     (let sdk_dir = android_sdk_dir cfg in
      case sdkmanager_path ops cfg (world s) of
        Inl e \<Rightarrow> raise e s
      | Inr path \<Rightarrow>
         (let command = [path, ''--sdk_root='' @ sdk_dir] @ args;
              kw' = kw @ [(''cwd'', sdk_dir)] in
          call (CmdExpect command kw') (cmd_expect ops command kw') s))"

text \<open>
  The loop of \<^verbatim>\<open>_android_update_sdk\<close> that answers the licence prompts runs while the
  child is alive; nothing bounds it, so it is a partial function: \<^verbatim>\<open>None\<close> is a run
  that never ends. \<^verbatim>\<open>expect\<close> returns the index of what it met: 0 for the prompt
  \<^verbatim>\<open>(y/N)\<close>, 1 for the end of the output, 2 for the timeout.
\<close>

type_synonym ('s, 'a) pexec = "'s \<Rightarrow> ((error + 'a) \<times> 's) option"

definition lift :: "('s, 'a) exec \<Rightarrow> ('s, 'a) pexec" where
  "lift m s = Some (m s)"

definition pbnd :: "('s, 'a) pexec \<Rightarrow> ('a \<Rightarrow> ('s, 'b) pexec) \<Rightarrow> ('s, 'b) pexec" where
  "pbnd m f s =
     (case m s of
        None \<Rightarrow> None
      | Some (Inl e, s') \<Rightarrow> Some (Inl e, s')
      | Some (Inr x, s') \<Rightarrow> f x s')"

definition pseq :: "('s, unit) pexec \<Rightarrow> ('s, 'b) pexec \<Rightarrow> ('s, 'b) pexec" where
  "pseq m n = pbnd m (\<lambda>_. n)"

partial_function (option) accept_license_loop ::
    "('w, 'v) ops \<Rightarrow> nat \<Rightarrow> 'w target \<Rightarrow> ((error + unit) \<times> 'w target) option" where
  "accept_license_loop ops ret_child s =
     (case poll (isalive ops ret_child) s of
        (Inl e, s1) \<Rightarrow> Some (Inl e, s1)
      | (Inr alive, s1) \<Rightarrow>
          if \<not> alive then Some (Inr (), s1)
          else
            (case poll (expect ops ret_child) s1 of
               (Inl e, s2) \<Rightarrow> Some (Inl e, s2)
             | (Inr pexp_match, s2) \<Rightarrow>
                 if pexp_match = 0
                 then (case call (Sendline ret_child ''y'') (sendline ops ret_child ''y'') s2 of
                         (Inl e, s3) \<Rightarrow> Some (Inl e, s3)
                       | (Inr _, s3) \<Rightarrow> accept_license_loop ops ret_child s3)
                 else accept_license_loop ops ret_child s2))"

declare accept_license_loop.simps [code]

definition android_update_sdk ::
    "('w, 'v) ops \<Rightarrow> config \<Rightarrow> string list \<Rightarrow> ('w target, unit) pexec" where
  "android_update_sdk ops cfg sdkmanager_commands s =
     (let auto_accept_license = accept_sdk_license cfg in
      if auto_accept_license
      then (case sdkmanager_child ops cfg sdkmanager_commands [] s of
              (Inl e, s1) \<Rightarrow> Some (Inl e, s1)
            | (Inr ret_child, s1) \<Rightarrow> accept_license_loop ops ret_child s1)
      else (case sdkmanager ops cfg sdkmanager_commands [(''show_output'', ''True'')] s of
              (Inl e, s1) \<Rightarrow> Some (Inl e, s1)
            | (Inr _, s1) \<Rightarrow> Some (Inr (), s1)))"

text \<open>
  \<^verbatim>\<open>_read_version_subdir\<close>: the names that do not parse are skipped. Versions are
  ordered linearly, so two versions that compare equal are one version.
\<close>

definition parse_or_raise :: "('w, 'v) ops \<Rightarrow> string \<Rightarrow> ('w target, 'v) exec" where
  "parse_or_raise ops x = (case parse ops x of Inl e \<Rightarrow> raise e | Inr v \<Rightarrow> ret v)"

definition read_version_subdir ::
    "('w, 'v::linorder) ops \<Rightarrow> string \<Rightarrow> ('w target, 'v) exec" where
  "read_version_subdir ops path s =
     (if \<not> path_exists ops path (world s)
      then seq (logm Debug (''build-tools folder not found '' @ path))
               (parse_or_raise ops ''0'') s
      else
        (case listdir ops path (world s) of
           Inl e \<Rightarrow> raise e s
         | Inr names \<Rightarrow>
            (let versions = List.map_filter
                   (\<lambda>v. case parse ops v of Inl _ \<Rightarrow> None | Inr x \<Rightarrow> Some x) names in
             if versions = []
             then seq (logm Error (''Unable to find the latest version for '' @ path))
                      (parse_or_raise ops ''0'') s
             else ret (Max (set versions)) s)))"

text \<open>\<^verbatim>\<open>_android_list_build_tools_versions\<close> and its loop over the lines.\<close>

fun build_tools_loop :: "('w, 'v) ops \<Rightarrow> string list \<Rightarrow> 'v list \<Rightarrow> error + 'v list" where
  "build_tools_loop ops [] build_tools_versions = Inr build_tools_versions"
| "build_tools_loop ops (line # lines) build_tools_versions =
     (if \<not> startswith (strip line) ''build-tools;''
      then build_tools_loop ops lines build_tools_versions
      else
        (case split_char CHR '' '' (strip line) of
           [] \<Rightarrow> Inl IndexError
         | package_name # _ \<Rightarrow>
            if count_list package_name CHR '';'' \<noteq> 1
            then Inl (AssertionError (''could not parse package '' @ [CHR 0x22] @ package_name
                                      @ [CHR 0x22]))
            else
              (case split_char CHR '';'' package_name of
                 _ # version # _ \<Rightarrow>
                   (case parse ops version of
                      Inl e \<Rightarrow> Inl e
                    | Inr v \<Rightarrow> build_tools_loop ops lines (build_tools_versions @ [v]))
               | _ \<Rightarrow> Inl IndexError)))"

definition android_list_build_tools_versions ::
    "('w, 'v) ops \<Rightarrow> config \<Rightarrow> ('w target, 'v list) exec" where
  "android_list_build_tools_versions ops cfg =
     bnd (sdkmanager ops cfg [''--list''] [])
       (\<lambda>available_packages.
          case build_tools_loop ops (split_char CHR 0x0A (stdout available_packages)) [] of
            Inl e \<Rightarrow> raise e
          | Inr build_tools_versions \<Rightarrow> ret build_tools_versions)"

text \<open>
  \<^verbatim>\<open>_check_aidl\<close> reads the installed version again and ignores its argument.
\<close>

definition check_aidl :: "('w, 'v::linorder) ops \<Rightarrow> config \<Rightarrow> 'v \<Rightarrow> ('w target, unit) exec" where
  "check_aidl ops cfg v_build_tools =
     seq (logm Debug ''Check that aidl can be executed'')
    (bnd (read_version_subdir ops (join (android_sdk_dir cfg) ''build-tools''))
       (\<lambda>v_build_tools.
          let aidl_cmd = join (join (join (android_sdk_dir cfg) ''build-tools'')
                                 (version_str ops v_build_tools)) ''aidl'';
              kw = [(''break_on_error'', ''False''), (''show_output'', ''False'')] in
          seq (call (Checkbin ''Aidl'' aidl_cmd) (checkbin ops ''Aidl'' aidl_cmd))
         (bnd (call (Cmd [aidl_cmd] kw) (cmd ops [aidl_cmd] kw))
            (\<lambda>r. if return_code r \<noteq> 1
                  then seq (logm Error ''Aidl cannot be executed'')
                      (seq (if architecture_bits cfg = ''64bit''
                            then seq (logm Error [])
                                (seq (logm Error ''You might have missed to install 32bits libs'')
                                (seq (logm Error ''Check https://buildozer.readthedocs.org/en/latest/installation.html'')
                                     (logm Error [])))
                            else seq (logm Error [])
                                (seq (logm Error ''In case of a bug report, please add a full log with log_level = 2'')
                                     (logm Error [])))
                           (raise (BuildozerException [])))
                  else ret ()))))"

text \<open>
  \<^verbatim>\<open>_install_android_packages\<close>. The store \<^verbatim>\<open>self.buildozer.state\<close> is a JSON store
  outside the module: \<^verbatim>\<open>state[key] = value\<close> sets the entry and \<^verbatim>\<open>state.sync()\<close>
  writes the store out. A list of strings equals a stored value, in Python, exactly when
  the value is the same list of the same strings. The method returns \<^verbatim>\<open>True\<close> from the
  early exit and \<^verbatim>\<open>None\<close> from its end. \<^verbatim>\<open>sorted(xs)[-1]\<close> raises on the empty list.
\<close>

definition cache_key :: string where
  "cache_key = ''android:sdk_installation''"

definition cache_value :: "config \<Rightarrow> jvalue" where
  "cache_value cfg =
     JList (map JStr [android_api cfg, android_minapi cfg, android_ndk_version cfg,
                      android_sdk_dir cfg, android_ndk_dir cfg])"

definition update_platform_tools :: "('w, 'v) ops \<Rightarrow> config \<Rightarrow> ('w target, unit) pexec" where
  "update_platform_tools ops cfg =
     (if \<not> skip_update cfg
      then pseq (lift (logm Info ''Installing/updating SDK platform tools if necessary''))
          (pseq (android_update_sdk ops cfg [''platform-tools''])
                (android_update_sdk ops cfg [''--update'']))
      else lift (seq (logm Info ''Skipping Android SDK update due to spec file setting'')
                     (logm Info (''Note: this also prevents installing missing ''
                                 @ ''SDK components''))))"

definition install_build_tools :: "('w, 'v::linorder) ops \<Rightarrow> config \<Rightarrow> ('w target, 'v) pexec" where
  "install_build_tools ops cfg =
     pseq (lift (logm Info ''Updating SDK build tools if necessary''))
    (pbnd (lift (read_version_subdir ops (join (android_sdk_dir cfg) ''build-tools'')))
       (\<lambda>installed_v_build_tools.
     pbnd (lift (android_list_build_tools_versions ops cfg))
       (\<lambda>available_v_build_tools.
     pseq (lift (if available_v_build_tools = []
                 then logm Error ''Did not find any build tools available to download''
                 else ret ()))
    (pbnd (lift (if available_v_build_tools = [] then raise IndexError
                 else ret (last (sort available_v_build_tools))))
       (\<lambda>latest_v_build_tools.
          if latest_v_build_tools > installed_v_build_tools
          then (if \<not> skip_update cfg
                then pseq (android_update_sdk ops cfg
                             [''build-tools;'' @ version_str ops latest_v_build_tools])
                          (lift (ret latest_v_build_tools))
                else pseq (lift (logm Info (''Skipping update to build tools ''
                                   @ version_str ops latest_v_build_tools
                                   @ '' due to spec setting'')))
                          (lift (ret installed_v_build_tools)))
          else lift (ret installed_v_build_tools))))))"

definition install_platform_api :: "('w, 'v) ops \<Rightarrow> config \<Rightarrow> ('w target, unit) exec" where
  "install_platform_api ops cfg =
     seq (logm Info ''Downloading platform api target if necessary'')
       (\<lambda>s. let android_platform = join (join (android_sdk_dir cfg) ''platforms'')
                                      (''android-'' @ android_api cfg) in
            if \<not> file_exists ops android_platform (world s)
            then (if \<not> skip_update cfg
                  then bnd (sdkmanager ops cfg [''platforms;android-'' @ android_api cfg] [])
                         (\<lambda>_. ret ()) s
                  else logm Info (''Skipping install API '' @ android_api cfg
                                  @ '' platform tools due to spec setting'') s)
            else ret () s)"

definition commit_cache :: "config \<Rightarrow> ('w target, bool option) exec" where
  "commit_cache cfg s =
     (Inr None,
      s\<lparr>buildozer_state := (buildozer_state s)(cache_key \<mapsto> cache_value cfg),
        trace := trace s @ [StateSync]\<rparr>)"

text \<open>
  The steps the source numbers 1 (platform tools), 2 (build tools, then aidl) and 3
  (the platform of the API), in their order; the commit of the cache follows them.
\<close>

definition installation_steps :: "('w, 'v::linorder) ops \<Rightarrow> config \<Rightarrow> ('w target, unit) pexec" where
  "installation_steps ops cfg =
     pseq (update_platform_tools ops cfg)
    (pbnd (install_build_tools ops cfg)
       (\<lambda>installed_v_build_tools.
     pseq (lift (check_aidl ops cfg installed_v_build_tools))
          (lift (install_platform_api ops cfg))))"

definition install_android_packages ::
    "('w, 'v::linorder) ops \<Rightarrow> config \<Rightarrow> ('w target, bool option) pexec" where
  "install_android_packages ops cfg s =
     (if buildozer_state s cache_key = Some (cache_value cfg) then Some (Inr (Some True), s)
      else
        pseq (installation_steps ops cfg)
             (lift (seq (logm Info ''Android packages installation done.'')
                        (commit_cache cfg))) s)"

subsection \<open>What a run leaves of the state\<close>

text \<open>
  \<^verbatim>\<open>extends_by P s s'\<close>: from \<^verbatim>\<open>s\<close> to \<^verbatim>\<open>s'\<close> the store
  \<^verbatim>\<open>self.buildozer.state\<close> has not changed, and the trace has grown by events that
  all satisfy \<^verbatim>\<open>P\<close>.
\<close>

definition extends_by :: "(event \<Rightarrow> bool) \<Rightarrow> 'w target \<Rightarrow> 'w target \<Rightarrow> bool" where
  "extends_by P s s' =
     (buildozer_state s' = buildozer_state s \<and> (\<exists>evs. trace s' = trace s @ evs \<and> list_all P evs))"


subsection \<open>A host to run the model on\<close>

text \<open>
  A small host for the examples: the paths that exist, the regular files with their
  lines, and the commands that run, each with its output and its return code (any
  other command fails). Versions are numbers.
\<close>

record host =
  paths :: "string list"
  files :: "(string \<times> string list) list"
  outputs :: "(string list \<times> string \<times> int) list"

function str_nat :: "nat \<Rightarrow> string" where
  "str_nat n = (if n < 10 then [''0123456789'' ! n]
                else str_nat (n div 10) @ [''0123456789'' ! (n mod 10)])"
  by pat_completeness auto
termination
  by (relation "measure id") auto

declare str_nat.simps [simp del]

definition host_cmd :: "string list \<Rightarrow> kwargs \<Rightarrow> host \<Rightarrow> (error + cmd_result) \<times> host" where
  "host_cmd command kw w =
     (case map_of (outputs w) command of
        None \<Rightarrow> (Inl (ExternalError ''command failed''), w)
      | Some (out, code) \<Rightarrow> (Inr \<lparr>stdout = out, stderr = [], return_code = code\<rparr>, w))"

definition host_parse :: "string \<Rightarrow> error + nat" where
  "host_parse x =
     (if x \<noteq> [] \<and> list_all isdigit x then Inr (int_of_digits x)
      else Inl (ExternalError ''invalid version''))"

definition host_ops :: "(host, nat) ops" where
  "host_ops =
     \<lparr>file_exists = (\<lambda>p w. p \<in> set (paths w) \<or> map_of (files w) p \<noteq> None),
      path_exists = (\<lambda>p w. p \<in> set (paths w) \<or> map_of (files w) p \<noteq> None),
      read_lines = (\<lambda>p w. map_of (files w) p),
      listdir = (\<lambda>p w. Inr (map (drop (Suc (length p)))
                              (filter (\<lambda>q. startswith q (p @ ''/'')) (paths w)))),
      expanduser = (\<lambda>p w. p),
      makedirs = (\<lambda>p w. (Inr (), w\<lparr>paths := p # paths w\<rparr>)),
      download = (\<lambda>url archive cwd w. (Inr (), w)),
      file_extract = (\<lambda>archive cwd w. (Inr (), w)),
      rename = (\<lambda>a b cwd w. (Inr (), w\<lparr>paths := b # paths w\<rparr>)),
      rmdir = (\<lambda>p w. (Inr (), w\<lparr>paths := removeAll p (paths w)\<rparr>)),
      checkbin = (\<lambda>msg fn w. (Inr (), w)),
      cmd = host_cmd,
      cmd_expect = (\<lambda>command kw w. (Inr 0, w)),
      isalive = (\<lambda>child w. (Inr False, w)),
      expect = (\<lambda>child w. (Inr 1, w)),
      sendline = (\<lambda>child l w. (Inr (), w)),
      parse = host_parse,
      version_str = str_nat,
      install_reqs = (\<lambda>setup. Inr [])\<rparr>"

definition host_config :: config where
  "host_config =
     \<lparr>sys_platform = ''linux'', uname_machine = ''x86_64'', pointer_bits = 64,
      architecture_bits = ''64bit'', executable = ''python3'',
      global_platform_dir = ''/g'', platform_dir = ''/p'',
      android_api = ''31'', android_minapi = ''21'', android_ndk_version = ''25b'',
      android_sdk_dir = ''/g/android-sdk'', android_ndk_dir = ''/g/android-ndk-r25b'',
      apache_ant_dir = ''/g/apache-ant-1.9.4'',
      adb_executable = ''/g/android-sdk/platform-tools/adb'', adb_args = [],
      platform_update = False, skip_update = True, accept_sdk_license = False,
      app = Map.empty\<rparr>"

definition start :: "host \<Rightarrow> host target" where
  "start w =
     \<lparr>world = w, trace = [], environ = Map.empty, buildozer_state = Map.empty,
      priv_serials = None, p4a_recommended_ndk_version = None, artifact_format = ''apk''\<rparr>"

text \<open>
  A host with the SDK in place: build tools 30 installed and offered, an \<^verbatim>\<open>aidl\<close> that
  runs (it returns 1 when called without arguments), the platform of API 31.
\<close>

definition host_ready :: host where
  "host_ready =
     \<lparr>paths = [''/g/android-sdk'', ''/g/android-sdk/build-tools'', ''/g/android-sdk/build-tools/30'',
               ''/g/android-sdk/platforms/android-31''],
      files = [(''/g/android-sdk/tools/bin/sdkmanager'', [])],
      outputs = [([''/g/android-sdk/tools/bin/sdkmanager'', ''--sdk_root=/g/android-sdk'', ''--list''],
                  (''Available Packages:'' @ [CHR 0x0A]
                     @ ''  build-tools;30 | 30 | Android SDK Build-Tools 30'' @ [CHR 0x0A], 0)),
                 ([''/g/android-sdk/build-tools/30/aidl''], ([], 1))]\<rparr>"

text \<open>The same host, with a package list that offers no build tools.\<close>

definition host_no_build_tools :: host where
  "host_no_build_tools =
     host_ready\<lparr>outputs :=
       [([''/g/android-sdk/tools/bin/sdkmanager'', ''--sdk_root=/g/android-sdk'', ''--list''],
         (''Available Packages:'' @ [CHR 0x0A]
            @ ''  platform-tools | 34.0.5 | Android SDK Platform-Tools'' @ [CHR 0x0A], 0)),
        ([''/g/android-sdk/build-tools/30/aidl''], ([], 1))]\<rparr>"

text \<open>A host where Ant, the SDK and the NDK have their directories.\<close>

definition host_installed :: host where
  "host_installed =
     \<lparr>paths = [''/g/apache-ant-1.9.4'', ''/g/android-sdk'', ''/g/android-ndk-r25b''],
      files = [], outputs = []\<rparr>"



text \<open>A host with one device on the bridge.\<close>

definition host_devices :: host where
  "host_devices =
     \<lparr>paths = [], files = [],
      outputs = [([''/g/android-sdk/platform-tools/adb'', ''devices''],
                  (''List of devices attached'' @ [CHR 0x0A] @ ''emulator-5554'' @ [CHR 0x09]
                     @ ''device'' @ [CHR 0x0A, CHR 0x0A], 0))]\<rparr>"

text \<open>
  The lines of the listing that name a device: not empty, no \<^verbatim>\<open>*\<close> and no
  \<^verbatim>\<open>List \<close> at the start.
\<close>

definition device_line :: "string \<Rightarrow> bool" where
  "device_line l = (l \<noteq> [] \<and> \<not> startswith l ''*'' \<and> \<not> startswith l ''List '')"


section \<open>Properties\<close>

subsection \<open>Release mode\<close>

lemma check_p4a_sign_env_loop_fst:
  "fst (check_p4a_sign_env_loop err keys check s) =
     (check \<and> list_all (\<lambda>key. environ s (''P4A_RELEASE_'' @ key) \<noteq> None) keys)"
proof (induction keys arbitrary: check s)
  case Nil
  show ?case by simp
next
  case (Cons key keys)
  show ?case by (simp add: Let_def Cons.IH log_def)
qed

lemma check_p4a_sign_env_loop_quiet:
  "snd (check_p4a_sign_env_loop False keys check s) = s"
  by (induction keys arbitrary: check s) (simp_all add: Let_def)

text \<open>
  C10. \<^verbatim>\<open>check_p4a_sign_env\<close> returns true exactly when the four variables
  \<^verbatim>\<open>P4A_RELEASE_KEYALIAS\<close>, \<^verbatim>\<open>P4A_RELEASE_KEYSTORE_PASSWD\<close>, \<^verbatim>\<open>P4A_RELEASE_KEYSTORE\<close>
  and \<^verbatim>\<open>P4A_RELEASE_KEYALIAS_PASSWD\<close> are all in \<^verbatim>\<open>os.environ\<close>, whatever the
  \<^verbatim>\<open>error\<close> flag; and \<^verbatim>\<open>get_release_mode\<close> returns \<^verbatim>\<open>release\<close> exactly when
  that check is true or the artifact format is \<^verbatim>\<open>aab\<close> or \<^verbatim>\<open>aar\<close>, and
  \<^verbatim>\<open>release-unsigned\<close> otherwise, leaving the state as it was.
\<close>

theorem release_mode_iff_signed_or_bundle:
  "fst (check_p4a_sign_env err s) =
     (environ s ''P4A_RELEASE_KEYALIAS'' \<noteq> None \<and>
      environ s ''P4A_RELEASE_KEYSTORE_PASSWD'' \<noteq> None \<and>
      environ s ''P4A_RELEASE_KEYSTORE'' \<noteq> None \<and>
      environ s ''P4A_RELEASE_KEYALIAS_PASSWD'' \<noteq> None)
   \<and> (fst (get_release_mode s) = ''release'') =
     (fst (check_p4a_sign_env False s) \<or> artifact_format s = ''aab'' \<or> artifact_format s = ''aar'')
   \<and> (fst (get_release_mode s) = ''release-unsigned'') =
     (\<not> (fst (check_p4a_sign_env False s) \<or> artifact_format s = ''aab'' \<or> artifact_format s = ''aar''))
   \<and> snd (get_release_mode s) = s"
proof -
  have "snd (check_p4a_sign_env False s) = s"
    unfolding check_p4a_sign_env_def by (rule check_p4a_sign_env_loop_quiet)
  then have quiet: "check_p4a_sign_env False s = (fst (check_p4a_sign_env False s), s)"
    by (simp add: prod_eq_iff)
  have a: "fst (check_p4a_sign_env err s) =
     (environ s ''P4A_RELEASE_KEYALIAS'' \<noteq> None \<and>
      environ s ''P4A_RELEASE_KEYSTORE_PASSWD'' \<noteq> None \<and>
      environ s ''P4A_RELEASE_KEYSTORE'' \<noteq> None \<and>
      environ s ''P4A_RELEASE_KEYALIAS_PASSWD'' \<noteq> None)"
    unfolding check_p4a_sign_env_def check_p4a_sign_env_loop_fst by simp
  have b: "get_release_mode s =
     (if fst (check_p4a_sign_env False s) \<or> artifact_format s = ''aab'' \<or> artifact_format s = ''aar''
      then (''release'', s) else (''release-unsigned'', s))"
    unfolding get_release_mode_def by (subst quiet) simp
  show ?thesis using a by (simp add: b)
qed

theorem release_mode_iff_signed_or_bundle_witness:
  "fst (get_release_mode (start host_installed)) = ''release-unsigned''
   \<and> fst (get_release_mode ((start host_installed)\<lparr>artifact_format := ''aab''\<rparr>)) = ''release''
   \<and> fst (check_p4a_sign_env True
         ((start host_installed)
            \<lparr>environ := [''P4A_RELEASE_KEYALIAS'' \<mapsto> ''k'', ''P4A_RELEASE_KEYSTORE_PASSWD'' \<mapsto> ''p'',
                         ''P4A_RELEASE_KEYSTORE'' \<mapsto> ''/s'', ''P4A_RELEASE_KEYALIAS_PASSWD'' \<mapsto> ''q'']\<rparr>))
   \<and> fst (get_release_mode
         ((start host_installed)
            \<lparr>environ := [''P4A_RELEASE_KEYALIAS'' \<mapsto> ''k'', ''P4A_RELEASE_KEYSTORE_PASSWD'' \<mapsto> ''p'',
                         ''P4A_RELEASE_KEYSTORE'' \<mapsto> ''/s'', ''P4A_RELEASE_KEYALIAS_PASSWD'' \<mapsto> ''q'']\<rparr>))
       = ''release''
   \<and> \<not> fst (check_p4a_sign_env False
         ((start host_installed)
            \<lparr>environ := [''P4A_RELEASE_KEYALIAS'' \<mapsto> ''k'', ''P4A_RELEASE_KEYSTORE_PASSWD'' \<mapsto> ''p'',
                         ''P4A_RELEASE_KEYSTORE'' \<mapsto> ''/s'']\<rparr>))"
proof -
  let ?full = "(start host_installed)
            \<lparr>environ := [''P4A_RELEASE_KEYALIAS'' \<mapsto> ''k'', ''P4A_RELEASE_KEYSTORE_PASSWD'' \<mapsto> ''p'',
                         ''P4A_RELEASE_KEYSTORE'' \<mapsto> ''/s'', ''P4A_RELEASE_KEYALIAS_PASSWD'' \<mapsto> ''q'']\<rparr>"
  let ?part = "(start host_installed)
            \<lparr>environ := [''P4A_RELEASE_KEYALIAS'' \<mapsto> ''k'', ''P4A_RELEASE_KEYSTORE_PASSWD'' \<mapsto> ''p'',
                         ''P4A_RELEASE_KEYSTORE'' \<mapsto> ''/s'']\<rparr>"
  have a: "fst (get_release_mode (start host_installed)) = ''release-unsigned''"
    using release_mode_iff_signed_or_bundle [of False "start host_installed"]
    by (simp add: start_def)
  have b: "fst (get_release_mode ((start host_installed)\<lparr>artifact_format := ''aab''\<rparr>)) = ''release''"
    using release_mode_iff_signed_or_bundle [of False "(start host_installed)\<lparr>artifact_format := ''aab''\<rparr>"]
    by simp
  have c: "fst (check_p4a_sign_env True ?full)"
    using release_mode_iff_signed_or_bundle [of True ?full] by simp
  have c': "fst (check_p4a_sign_env False ?full)"
    using release_mode_iff_signed_or_bundle [of False ?full] by simp
  have d: "fst (get_release_mode ?full) = ''release''"
    using release_mode_iff_signed_or_bundle [of False ?full] c' by simp
  have e: "\<not> fst (check_p4a_sign_env False ?part)"
    using release_mode_iff_signed_or_bundle [of False ?part] by simp
  show ?thesis using a b c d e by blast
qed

subsection \<open>The installers\<close>

lemma first_digits_21e: "first_digits ''21e'' = ''21''"
  by (simp add: first_digits_def isdigit_def)

lemma ndk_major_21e: "ndk_major ''21e'' = Inr 21"
  by (simp add: ndk_major_def first_digits_21e int_of_digits_def)

text \<open>
  On the other hosts the archive is named as the vendor names it: the extension is
  \<^verbatim>\<open>bin\<close> for 10c, 10d and 10e, \<^verbatim>\<open>tar.bz2\<close> for every other version up to 10 and
  \<^verbatim>\<open>zip\<close> above, and the architecture is part of the name below version 23 only.
\<close>

lemma ndk_archive_unix:
  assumes "sys_platform cfg \<notin> set [''win32'', ''cygwin'']"
    and "sys_platform cfg = ''darwin'' \<or> startswith (sys_platform cfg) ''linux''
         \<or> startswith (sys_platform cfg) ''freebsd''"
  shows "ndk_archive cfg major =
     Inr (''android-ndk-r'' @ android_ndk_version cfg @ ''-''
          @ (if startswith (sys_platform cfg) ''linux'' \<or> startswith (sys_platform cfg) ''freebsd''
             then ''linux'' else ''darwin'')
          @ (if 23 \<le> major then []
             else if contains (uname_machine cfg) ''64'' then ''-x86_64'' else ''-x86'')
          @ ''.''
          @ (if android_ndk_version cfg \<in> set [''10c'', ''10d'', ''10e''] then ''bin''
             else if major \<le> 10 then ''tar.bz2'' else ''zip''))"
  using assms by (simp add: ndk_archive_def Let_def)

lemma ndk_archive_unsupported:
  assumes "sys_platform cfg \<notin> set [''win32'', ''cygwin'']"
    and "\<not> (sys_platform cfg = ''darwin'' \<or> startswith (sys_platform cfg) ''linux''
         \<or> startswith (sys_platform cfg) ''freebsd'')"
  shows "ndk_archive cfg major = Inl (SystemError (''Unsupported platform: '' @ sys_platform cfg))"
  using assms by (simp add: ndk_archive_def Let_def)

text \<open>
  Where the NDK directory is missing and every step goes through, the archive is
  downloaded and extracted in the global platform directory, and the directory
  \<^verbatim>\<open>android-ndk-r{version}\<close> it unpacks to is renamed to the NDK directory.
\<close>

lemma install_android_ndk_fresh:
  assumes "\<not> file_exists ops (android_ndk_dir cfg) (world s)"
    and "ndk_major (android_ndk_version cfg) = Inr major"
    and "ndk_archive cfg major = Inr archive"
    and "download ops url archive (global_platform_dir cfg) (world s) = (Inr (), w1)"
    and "url = (if major \<ge> 11 then ''https://dl.google.com/android/repository/''
                else ''https://dl.google.com/android/ndk/'')"
    and "file_extract ops archive (global_platform_dir cfg) w1 = (Inr (), w2)"
    and "rename ops (''android-ndk-r'' @ android_ndk_version cfg) (android_ndk_dir cfg)
           (global_platform_dir cfg) w2 = (Inr (), w3)"
  shows "install_android_ndk ops cfg s =
     (Inr (android_ndk_dir cfg),
      s\<lparr>world := w3,
        trace := trace s @
          [Log Info ''Android NDK is missing, downloading'',
           Download url archive (global_platform_dir cfg),
           Log Info ''Unpacking Android NDK'',
           FileExtract archive (global_platform_dir cfg),
           Rename (''android-ndk-r'' @ android_ndk_version cfg) (android_ndk_dir cfg)
             (global_platform_dir cfg),
           Log Info ''Android NDK installation done.'']\<rparr>)"
  using assms
  by (simp add: install_android_ndk_def Let_def seq_def bnd_def logm_def log_def call_def ret_def)

text \<open>
  C3. The archive name is a function of the platform, the bit width and the version,
  and on Linux, FreeBSD and macOS it follows the claim. On Windows it does not: the
  claim keeps the architecture in the name below version 23, and the module names the
  archive of NDK 21e on a 64-bit Windows \<^verbatim>\<open>android-ndk-r21e-windows.zip\<close>, where the
  other hosts get \<^verbatim>\<open>-x86_64\<close> (here for Linux). The bit width of a Windows host never
  reaches the name.
\<close>

theorem ndk_archive_windows_drops_architecture:
  "ndk_major ''21e'' = Inr 21
   \<and> ndk_archive (cfg\<lparr>sys_platform := ''win32'', pointer_bits := 64, android_ndk_version := ''21e''\<rparr>) 21
       = Inr ''android-ndk-r21e-windows.zip''
   \<and> ndk_archive (cfg\<lparr>sys_platform := ''cygwin'', pointer_bits := 32, android_ndk_version := ''21e''\<rparr>) 21
       = Inr ''android-ndk-r21e-windows.zip''
   \<and> ndk_archive (cfg\<lparr>sys_platform := ''linux'', uname_machine := ''x86_64'',
         android_ndk_version := ''21e''\<rparr>) 21
       = Inr ''android-ndk-r21e-linux-x86_64.zip''"
  by (simp add: ndk_major_21e ndk_archive_def Let_def startswith_def)



subsection \<open>Runs that leave the store alone\<close>

lemma extends_by_refl: "extends_by P s s"
  by (simp add: extends_by_def)

lemma extends_by_trans: "extends_by P s s1 \<Longrightarrow> extends_by P s1 s2 \<Longrightarrow> extends_by P s s2"
  by (auto simp: extends_by_def)

lemma extends_by_log: "P (Log lvl msg) \<Longrightarrow> extends_by P s (log lvl msg s)"
  by (simp add: extends_by_def log_def)

lemma ret_extends: "extends_by P s (snd (ret x s))"
  by (simp add: ret_def extends_by_refl)

lemma raise_extends: "extends_by P s (snd (raise e s))"
  by (simp add: raise_def extends_by_refl)

lemma logm_extends: "P (Log lvl msg) \<Longrightarrow> extends_by P s (snd (logm lvl msg s))"
  by (simp add: logm_def extends_by_log)

lemma call_extends: "P ev \<Longrightarrow> extends_by P s (snd (call ev f s))"
  by (simp add: call_def extends_by_def split: prod.splits)

lemma poll_extends: "extends_by P s (snd (poll f s))"
  by (simp add: poll_def extends_by_def split: prod.splits)

lemma bnd_extends:
  assumes "\<And>s. extends_by P s (snd (m s))" and "\<And>x s. extends_by P s (snd (f x s))"
  shows "extends_by P s (snd (bnd m f s))"
proof (cases "m s")
  case (Pair r s1)
  have a: "extends_by P s s1" using assms(1) [of s] Pair by simp
  show ?thesis
  proof (cases r)
    case (Inl e)
    then show ?thesis using a Pair by (simp add: bnd_def)
  next
    case (Inr x)
    then have "bnd m f s = f x s1" using Pair by (simp add: bnd_def)
    then show ?thesis using a assms(2) [of s1 x] by (auto intro: extends_by_trans)
  qed
qed

lemma seq_extends:
  assumes "\<And>s. extends_by P s (snd (m s))" and "\<And>s. extends_by P s (snd (n s))"
  shows "extends_by P s (snd (seq m n s))"
  unfolding seq_def by (rule bnd_extends) (rule assms)+

lemma pbnd_extends:
  assumes "\<And>s r s'. m s = Some (r, s') \<Longrightarrow> extends_by P s s'"
    and "\<And>x s r s'. f x s = Some (r, s') \<Longrightarrow> extends_by P s s'"
    and "pbnd m f s = Some (r, s')"
  shows "extends_by P s s'"
proof (cases "m s")
  case None
  then show ?thesis using assms(3) by (simp add: pbnd_def)
next
  case (Some a)
  obtain r1 s1 where a: "a = (r1, s1)" by (cases a)
  have e: "extends_by P s s1" using assms(1) Some a by simp
  show ?thesis
  proof (cases r1)
    case (Inl err)
    then show ?thesis using e Some a assms(3) by (simp add: pbnd_def)
  next
    case (Inr x)
    then have "f x s1 = Some (r, s')" using Some a assms(3) by (simp add: pbnd_def)
    then show ?thesis using e assms(2) by (blast intro: extends_by_trans)
  qed
qed

lemma pseq_extends:
  assumes "\<And>s r s'. m s = Some (r, s') \<Longrightarrow> extends_by P s s'"
    and "\<And>s r s'. n s = Some (r, s') \<Longrightarrow> extends_by P s s'"
    and "pseq m n s = Some (r, s')"
  shows "extends_by P s s'"
  using assms(3) unfolding pseq_def
  by (rule pbnd_extends [rotated 2]) (erule assms)+

lemma lift_extends:
  assumes "\<And>s. extends_by P s (snd (m s))" and "lift m s = Some (r, s')"
  shows "extends_by P s s'"
  using assms(1) [of s] assms(2) by (auto simp: lift_def)

lemma sdkmanager_extends:
  "(\<And>c k. P (Cmd c k)) \<Longrightarrow> extends_by P s (snd (sdkmanager ops cfg args kw s))"
  by (simp add: sdkmanager_def Let_def raise_extends call_extends split: sum.splits)

lemma sdkmanager_child_extends:
  "(\<And>c k. P (CmdExpect c k)) \<Longrightarrow> extends_by P s (snd (sdkmanager_child ops cfg args kw s))"
  by (simp add: sdkmanager_child_def Let_def raise_extends call_extends split: sum.splits)

lemma poll_extendsD: "poll f s = (a, s1) \<Longrightarrow> extends_by P s s1"
  using poll_extends [of P s f] by simp

lemma call_extendsD: "P ev \<Longrightarrow> call ev f s = (a, s1) \<Longrightarrow> extends_by P s s1"
  using call_extends [of P ev s f] by simp

lemma accept_license_loop_extends:
  assumes P: "\<And>c l. P (Sendline c l)"
    and run: "accept_license_loop ops child s = Some y"
  shows "extends_by P s (snd y)"
proof (rule accept_license_loop.raw_induct
    [where P = "\<lambda>ops child s y. extends_by P s (snd y)", OF _ run])
  fix loop :: "('a, 'b) ops \<Rightarrow> nat \<Rightarrow> 'a target \<Rightarrow> ((error + unit) \<times> 'a target) option"
  fix ops child s y
  assume IH: "\<And>ops child s y. loop ops child s = Some y \<Longrightarrow> extends_by P s (snd y)"
  assume step: "(case poll (isalive ops child) s of
        (Inl e, s1) \<Rightarrow> Some (Inl e, s1)
      | (Inr alive, s1) \<Rightarrow>
          if \<not> alive then Some (Inr (), s1)
          else
            (case poll (expect ops child) s1 of
               (Inl e, s2) \<Rightarrow> Some (Inl e, s2)
             | (Inr pexp_match, s2) \<Rightarrow>
                 if pexp_match = 0
                 then (case call (Sendline child ''y'') (sendline ops child ''y'') s2 of
                         (Inl e, s3) \<Rightarrow> Some (Inl e, s3)
                       | (Inr _, s3) \<Rightarrow> loop ops child s3)
                 else loop ops child s2)) = Some y"
  obtain a s1 where p1: "poll (isalive ops child) s = (a, s1)"
    by (cases "poll (isalive ops child) s")
  have e1: "extends_by P s s1" using p1 by (rule poll_extendsD)
  obtain b s2 where p2: "poll (expect ops child) s1 = (b, s2)"
    by (cases "poll (expect ops child) s1")
  have e2: "extends_by P s s2" using e1 p2 by (blast intro: extends_by_trans poll_extendsD)
  obtain c s3 where p3: "call (Sendline child ''y'') (sendline ops child ''y'') s2 = (c, s3)"
    by (cases "call (Sendline child ''y'') (sendline ops child ''y'') s2")
  have e3: "extends_by P s s3"
    using e2 call_extendsD [where P = P, OF P p3] by (blast intro: extends_by_trans)
  have r2: "loop ops child s2 = Some y \<Longrightarrow> extends_by P s (snd y)"
    using IH e2 by (blast intro: extends_by_trans)
  have r3: "loop ops child s3 = Some y \<Longrightarrow> extends_by P s (snd y)"
    using IH e3 by (blast intro: extends_by_trans)
  show "extends_by P s (snd y)"
    using step e1 e2 e3 r2 r3
    by (auto simp: p1 p2 p3 split: sum.splits if_splits)
qed

lemma android_update_sdk_extends:
  assumes "\<And>c k. P (Cmd c k)" and "\<And>c k. P (CmdExpect c k)" and "\<And>c l. P (Sendline c l)"
    and "android_update_sdk ops cfg commands s = Some (r, s')"
  shows "extends_by P s s'"
proof (cases "accept_sdk_license cfg")
  case True
  obtain a s1 where c: "sdkmanager_child ops cfg commands [] s = (a, s1)"
    by (cases "sdkmanager_child ops cfg commands [] s")
  have e1: "extends_by P s s1"
    using sdkmanager_child_extends [of P s ops cfg commands "[]"] assms(2) c by simp
  show ?thesis
  proof (cases a)
    case (Inl e)
    then show ?thesis using assms(4) True c e1 by (simp add: android_update_sdk_def)
  next
    case (Inr child)
    then have "accept_license_loop ops child s1 = Some (r, s')"
      using assms(4) True c by (simp add: android_update_sdk_def)
    then have "extends_by P s1 s'"
      using accept_license_loop_extends [of P ops child s1 "(r, s')"] assms(3) by simp
    then show ?thesis using e1 by (blast intro: extends_by_trans)
  qed
next
  case False
  obtain a s1 where c: "sdkmanager ops cfg commands [(''show_output'', ''True'')] s = (a, s1)"
    by (cases "sdkmanager ops cfg commands [(''show_output'', ''True'')] s")
  have e1: "extends_by P s s1"
    using sdkmanager_extends [of P s ops cfg commands "[(''show_output'', ''True'')]"] assms(1) c
    by simp
  show ?thesis
    using assms(4) False c e1 by (auto simp: android_update_sdk_def split: sum.splits)
qed

lemmas exec_extends = ret_extends raise_extends logm_extends call_extends poll_extends
  bnd_extends seq_extends

lemma parse_or_raise_extends: "extends_by P s (snd (parse_or_raise ops x s))"
  by (simp add: parse_or_raise_def ret_extends raise_extends split: sum.splits)

lemma read_version_subdir_extends:
  "extends_by (\<lambda>_. True) s (snd (read_version_subdir ops path s))"
  unfolding read_version_subdir_def
  by (auto simp: Let_def split: sum.splits intro!: exec_extends parse_or_raise_extends)

lemma android_list_build_tools_versions_extends:
  "extends_by (\<lambda>_. True) s (snd (android_list_build_tools_versions ops cfg s))"
  unfolding android_list_build_tools_versions_def
  by (auto split: sum.splits intro!: exec_extends sdkmanager_extends)

lemma check_aidl_extends: "extends_by (\<lambda>_. True) s (snd (check_aidl ops cfg v s))"
  unfolding check_aidl_def
  by (auto simp: Let_def intro!: exec_extends read_version_subdir_extends)

lemma install_platform_api_extends:
  "extends_by (\<lambda>_. True) s (snd (install_platform_api ops cfg s))"
  unfolding install_platform_api_def
  by (auto simp: Let_def intro!: exec_extends sdkmanager_extends)

lemmas pexec_extends = pbnd_extends pseq_extends lift_extends android_update_sdk_extends

lemma update_platform_tools_extends:
  "update_platform_tools ops cfg s = Some (r, s') \<Longrightarrow> extends_by (\<lambda>_. True) s s'"
  unfolding update_platform_tools_def
  by (auto split: if_splits elim!: pseq_extends [rotated 2] lift_extends [rotated]
      android_update_sdk_extends [rotated 3] intro!: exec_extends)

lemma install_build_tools_extends:
  "install_build_tools ops cfg s = Some (r, s') \<Longrightarrow> extends_by (\<lambda>_. True) s s'"
  unfolding install_build_tools_def
  by (elim pseq_extends [rotated 2] pbnd_extends [rotated 2] lift_extends [rotated])
    (auto split: if_splits elim!: pseq_extends [rotated 2] lift_extends [rotated]
      android_update_sdk_extends [rotated 3]
      intro!: exec_extends read_version_subdir_extends android_list_build_tools_versions_extends)

lemma installation_steps_extends:
  "installation_steps ops cfg s = Some (r, s') \<Longrightarrow> extends_by (\<lambda>_. True) s s'"
  unfolding installation_steps_def
  by (elim pseq_extends [rotated 2] pbnd_extends [rotated 2] lift_extends [rotated]
        update_platform_tools_extends install_build_tools_extends)
     (auto intro!: check_aidl_extends install_platform_api_extends)

subsection \<open>The SDK packages and the cache\<close>

text \<open>
  The licence loop returns as soon as the child is dead, and it answers a prompt with
  \<^verbatim>\<open>y\<close> before it asks again.
\<close>

lemma accept_license_loop_dead:
  assumes "isalive ops child (world s) = (Inr False, w)"
  shows "accept_license_loop ops child s = Some (Inr (), s\<lparr>world := w\<rparr>)"
  using assms by (subst accept_license_loop.simps) (simp add: poll_def)

lemma accept_license_loop_prompt:
  assumes "isalive ops child (world s) = (Inr True, w1)"
    and "expect ops child w1 = (Inr 0, w2)"
    and "sendline ops child ''y'' w2 = (Inr (), w3)"
  shows "accept_license_loop ops child s =
           accept_license_loop ops child (s\<lparr>world := w3, trace := trace s @ [Sendline child ''y'']\<rparr>)"
  using assms by (subst accept_license_loop.simps) (simp add: poll_def call_def)

lemma accept_license_loop_host:
  "accept_license_loop host_ops child s = Some (Inr (), s)"
proof -
  have "isalive host_ops child (world s) = (Inr False, world s)"
    by (simp add: host_ops_def)
  from accept_license_loop_dead [OF this] show ?thesis by simp
qed

lemma pbnd_Inr_iff:
  "(pbnd m f s = Some (Inr y, s')) = (\<exists>x s1. m s = Some (Inr x, s1) \<and> f x s1 = Some (Inr y, s'))"
  by (auto simp: pbnd_def split: option.splits sum.splits)

lemma pseq_Inr_iff:
  "(pseq m n s = Some (Inr y, s')) = (\<exists>s1. m s = Some (Inr (), s1) \<and> n s1 = Some (Inr y, s'))"
  by (simp add: pseq_def pbnd_Inr_iff)

lemma lift_eq: "(lift m s = Some z) = (m s = z)"
  by (auto simp: lift_def)

lemma commit_eq:
  "seq (logm Info msg) (commit_cache cfg) s1 =
     (Inr None, s1\<lparr>buildozer_state := (buildozer_state s1)(cache_key \<mapsto> cache_value cfg),
                   trace := trace s1 @ [Log Info msg, StateSync]\<rparr>)"
  by (simp add: seq_def bnd_def logm_def log_def commit_cache_def)

lemma install_android_packages_uncached:
  assumes "buildozer_state s cache_key \<noteq> Some (cache_value cfg)"
  shows "install_android_packages ops cfg s =
     (case installation_steps ops cfg s of
        None \<Rightarrow> None
      | Some (Inl e, s1) \<Rightarrow> Some (Inl e, s1)
      | Some (Inr u, s1) \<Rightarrow>
          Some (Inr None,
                s1\<lparr>buildozer_state := (buildozer_state s1)(cache_key \<mapsto> cache_value cfg),
                   trace := trace s1 @ [Log Info ''Android packages installation done.'', StateSync]\<rparr>))"
  using assms
  by (simp add: install_android_packages_def pseq_def pbnd_def lift_def commit_eq
      split: option.splits sum.splits)



lemma installation_steps_Inr:
  assumes "installation_steps ops cfg s = Some (Inr u, s4)"
  shows "\<exists>s1 v s2 s3. update_platform_tools ops cfg s = Some (Inr (), s1)
     \<and> install_build_tools ops cfg s1 = Some (Inr v, s2)
     \<and> check_aidl ops cfg v s2 = (Inr (), s3)
     \<and> install_platform_api ops cfg s3 = (Inr (), s4)"
  using assms
  by (auto simp: installation_steps_def pseq_Inr_iff pbnd_Inr_iff lift_eq)

text \<open>Two runs on the example host, evaluated.\<close>

lemmas packages_defs = install_android_packages_def installation_steps_def update_platform_tools_def
  install_build_tools_def check_aidl_def install_platform_api_def commit_cache_def
  android_list_build_tools_versions_def read_version_subdir_def parse_or_raise_def
  sdkmanager_def sdkmanager_path_def isfile_def
  pseq_def pbnd_def lift_def seq_def bnd_def ret_def raise_def logm_def log_def call_def poll_def
  host_ops_def host_config_def host_cmd_def host_parse_def start_def
  cache_key_def cache_value_def join_def startswith_def strip_def isspace_def isdigit_def
  int_of_digits_def List.map_filter_def Let_def

lemma run_ready:
  "install_android_packages host_ops host_config (start host_ready) =
     Some (Inr None,
       (start host_ready)
         \<lparr>trace :=
            [Log Info ''Skipping Android SDK update due to spec file setting'',
             Log Info ''Note: this also prevents installing missing SDK components'',
             Log Info ''Updating SDK build tools if necessary'',
             Cmd [''/g/android-sdk/tools/bin/sdkmanager'', ''--sdk_root=/g/android-sdk'', ''--list'']
               [(''cwd'', ''/g/android-sdk''), (''get_stdout'', ''True'')],
             Log Debug ''Check that aidl can be executed'',
             Checkbin ''Aidl'' ''/g/android-sdk/build-tools/30/aidl'',
             Cmd [''/g/android-sdk/build-tools/30/aidl'']
               [(''break_on_error'', ''False''), (''show_output'', ''False'')],
             Log Info ''Downloading platform api target if necessary'',
             Log Info ''Android packages installation done.'', StateSync],
          buildozer_state := [cache_key \<mapsto> cache_value host_config]\<rparr>)"
  by (simp add: packages_defs host_ready_def str_nat.simps)

lemma run_no_build_tools:
  "install_android_packages host_ops host_config (start host_no_build_tools) =
     Some (Inl IndexError,
       (start host_no_build_tools)
         \<lparr>trace :=
            [Log Info ''Skipping Android SDK update due to spec file setting'',
             Log Info ''Note: this also prevents installing missing SDK components'',
             Log Info ''Updating SDK build tools if necessary'',
             Cmd [''/g/android-sdk/tools/bin/sdkmanager'', ''--sdk_root=/g/android-sdk'', ''--list'']
               [(''cwd'', ''/g/android-sdk''), (''get_stdout'', ''True'')],
             Log Error ''Did not find any build tools available to download'']\<rparr>)"
  by (simp add: packages_defs host_ready_def host_no_build_tools_def)



text \<open>
  C2. The entry \<^verbatim>\<open>android:sdk_installation\<close> is written only at the end. If a run of
  \<^verbatim>\<open>_install_android_packages\<close> raises, the store is as it was, and a later run with
  the same configuration on that store (whatever else has changed) does not take the
  early exit: it runs the installation steps from the first. If a run has changed the
  store, then the update of the platform tools, the installation of the build tools,
  the check of aidl and the installation of the platform have each returned without
  raising, none of them has touched the store, the run has returned normally, and the
  only change is the new entry.
\<close>

theorem cache_committed_only_after_all_steps:
  fixes ops :: "('w, 'v::linorder) ops"
  assumes run: "install_android_packages ops cfg s = Some (r, s')"
  shows "(\<forall>e. r = Inl e \<longrightarrow>
            buildozer_state s' = buildozer_state s
          \<and> (\<forall>(ops2 :: ('w, 'v) ops) s2. buildozer_state s2 = buildozer_state s' \<longrightarrow>
                install_android_packages ops2 cfg s2 =
                  pseq (installation_steps ops2 cfg)
                    (lift (seq (logm Info ''Android packages installation done.'')
                               (commit_cache cfg))) s2))
       \<and> (buildozer_state s' \<noteq> buildozer_state s \<longrightarrow>
            r = Inr None
          \<and> buildozer_state s' = (buildozer_state s)(cache_key \<mapsto> cache_value cfg)
          \<and> (\<exists>s1 v s2 s3 s4.
                update_platform_tools ops cfg s = Some (Inr (), s1)
              \<and> install_build_tools ops cfg s1 = Some (Inr v, s2)
              \<and> check_aidl ops cfg v s2 = (Inr (), s3)
              \<and> install_platform_api ops cfg s3 = (Inr (), s4)
              \<and> buildozer_state s4 = buildozer_state s))"
proof (cases "buildozer_state s cache_key = Some (cache_value cfg)")
  case True
  then have "r = Inr (Some True)" and "s' = s"
    using run by (simp_all add: install_android_packages_def)
  then show ?thesis by simp
next
  case False
  obtain r1 s1 where st: "installation_steps ops cfg s = Some (r1, s1)"
    using run install_android_packages_uncached [OF False, of ops]
    by (auto split: option.splits)
  have keep: "buildozer_state s1 = buildozer_state s"
    using installation_steps_extends [OF st] by (simp add: extends_by_def)
  show ?thesis
  proof (cases r1)
    case (Inl e)
    then have res: "r = Inl e" "s' = s1"
      using run st install_android_packages_uncached [OF False, of ops] by simp_all
    have "install_android_packages ops2 cfg s2 =
            pseq (installation_steps ops2 cfg)
              (lift (seq (logm Info ''Android packages installation done.'')
                         (commit_cache cfg))) s2"
      if "buildozer_state s2 = buildozer_state s'" for ops2 :: "('w, 'v) ops" and s2
      using that res keep False by (simp add: install_android_packages_def)
    then show ?thesis using res keep by simp
  next
    case (Inr u)
    then have res: "r = Inr None"
      "s' = s1\<lparr>buildozer_state := (buildozer_state s1)(cache_key \<mapsto> cache_value cfg),
              trace := trace s1 @ [Log Info ''Android packages installation done.'', StateSync]\<rparr>"
      using run st install_android_packages_uncached [OF False, of ops] by simp_all
    obtain t1 v t2 t3 where steps:
      "update_platform_tools ops cfg s = Some (Inr (), t1)"
      "install_build_tools ops cfg t1 = Some (Inr v, t2)"
      "check_aidl ops cfg v t2 = (Inr (), t3)"
      "install_platform_api ops cfg t3 = (Inr (), s1)"
      using installation_steps_Inr st Inr by blast
    show ?thesis using res keep steps by auto
  qed
qed

theorem cache_committed_only_after_all_steps_witness:
  "(\<exists>s'. install_android_packages host_ops host_config (start host_no_build_tools)
            = Some (Inl IndexError, s')
         \<and> buildozer_state s' = buildozer_state (start host_no_build_tools)
         \<and> install_android_packages host_ops host_config s' =
              pseq (installation_steps host_ops host_config)
                (lift (seq (logm Info ''Android packages installation done.'')
                           (commit_cache host_config))) s')
   \<and> (\<exists>s'. install_android_packages host_ops host_config (start host_ready) = Some (Inr None, s')
         \<and> buildozer_state s' \<noteq> buildozer_state (start host_ready)
         \<and> buildozer_state s' = (buildozer_state (start host_ready))(cache_key \<mapsto> cache_value host_config)
         \<and> (\<exists>s1 v s2 s3 s4.
                update_platform_tools host_ops host_config (start host_ready) = Some (Inr (), s1)
              \<and> install_build_tools host_ops host_config s1 = Some (Inr v, s2)
              \<and> check_aidl host_ops host_config v s2 = (Inr (), s3)
              \<and> install_platform_api host_ops host_config s3 = (Inr (), s4)
              \<and> buildozer_state s4 = buildozer_state (start host_ready)))"
proof -
  let ?a = "snd (the (install_android_packages host_ops host_config (start host_no_build_tools)))"
  let ?b = "snd (the (install_android_packages host_ops host_config (start host_ready)))"
  have ra: "install_android_packages host_ops host_config (start host_no_build_tools)
              = Some (Inl IndexError, ?a)"
    by (simp add: run_no_build_tools)
  have rb: "install_android_packages host_ops host_config (start host_ready) = Some (Inr None, ?b)"
    by (simp add: run_ready)
  have changed: "buildozer_state ?b \<noteq> buildozer_state (start host_ready)"
  proof
    assume "buildozer_state ?b = buildozer_state (start host_ready)"
    then have "buildozer_state ?b cache_key = buildozer_state (start host_ready) cache_key"
      by simp
    then show False unfolding run_ready by (simp add: start_def)
  qed
  show ?thesis
    using cache_committed_only_after_all_steps [OF ra] cache_committed_only_after_all_steps [OF rb]
      ra rb changed
    by blast
qed

lemma install_build_tools_no_versions:
  assumes "read_version_subdir ops (join (android_sdk_dir cfg) ''build-tools'')
             (log Info ''Updating SDK build tools if necessary'' s) = (Inr v, s1)"
    and "android_list_build_tools_versions ops cfg s1 = (Inr [], s2)"
  shows "install_build_tools ops cfg s =
           Some (Inl IndexError, log Error ''Did not find any build tools available to download'' s2)"
  using assms
  by (simp add: install_build_tools_def pseq_def pbnd_def lift_def logm_def raise_def)

text \<open>
  C4. The claim does not hold of the code. When the package list offers no build tools,
  the module logs the error and then evaluates \<^verbatim>\<open>sorted(available_v_build_tools)[-1]\<close>
  on the empty list: the run ends in \<^verbatim>\<open>IndexError\<close>, right after the message, and the
  cache entry is not written. No version zero takes the place of the missing one (as
  \<^verbatim>\<open>_read_version_subdir\<close> does for the installed version). The lemma above shows it
  for every host, the theorem on the example host.
\<close>

theorem no_build_tools_raises_index_error:
  "\<exists>s'. install_android_packages host_ops host_config (start host_no_build_tools)
           = Some (Inl IndexError, s')
        \<and> last (trace s') = Log Error ''Did not find any build tools available to download''
        \<and> buildozer_state s' cache_key = None"
  unfolding run_no_build_tools by (simp add: start_def)

subsection \<open>The recommended NDK\<close>











subsection \<open>The serials\<close>

lemma serials_loop_fields:
  "list_all (\<lambda>l. split_ws l \<noteq> []) (filter device_line lines) \<Longrightarrow>
   serials_loop lines found = Inr (found @ map (\<lambda>l. hd (split_ws l)) (filter device_line lines))"
proof (induction lines arbitrary: found)
  case Nil
  show ?case by simp
next
  case (Cons l lines)
  show ?case
  proof (cases "device_line l")
    case False
    then show ?thesis using Cons by (auto simp: device_line_def)
  next
    case True
    then obtain f fs where f: "split_ws l = f # fs"
      using Cons.prems by (cases "split_ws l") auto
    have "serials_loop (l # lines) found = serials_loop lines (found @ [f])"
      using True f by (simp add: device_line_def)
    then show ?thesis using Cons True f by simp
  qed
qed

lemma adb_listing:
  "serials_loop (splitlines (''List of devices attached'' @ [CHR 0x0A] @ ''emulator-5554''
      @ [CHR 0x09] @ ''device'' @ [CHR 0x0A, CHR 0x0A])) [] = Inr [''emulator-5554'']"
  by code_simp

lemma adb_listing_lines:
  "filter device_line (splitlines (''List of devices attached'' @ [CHR 0x0A] @ ''emulator-5554''
      @ [CHR 0x09] @ ''device'' @ [CHR 0x0A, CHR 0x0A])) = [''emulator-5554'' @ [CHR 0x09] @ ''device'']"
  by code_simp

lemma adb_listing_fields: "split_ws (''emulator-5554'' @ [CHR 0x09] @ ''device'') = [''emulator-5554'', ''device'']"
  by code_simp

lemma split_override: "split_char CHR '','' ''abc,def'' = [''abc'', ''def'']"
  by code_simp

lemma run_devices:
  assumes "\<not> truthy (e ''ANDROID_SERIAL'')"
  shows "serials host_ops host_config ((start host_devices)\<lparr>environ := e\<rparr>) =
     (Inr [''emulator-5554''],
      (start host_devices)
        \<lparr>environ := e,
         trace := [Cmd [''/g/android-sdk/platform-tools/adb'', ''devices''] [(''get_stdout'', ''True'')]],
         priv_serials := Some [''emulator-5554'']\<rparr>)"
proof -
  have c: "cmd host_ops [''/g/android-sdk/platform-tools/adb'', ''devices''] [(''get_stdout'', ''True'')]
             host_devices =
           (Inr \<lparr>stdout = ''List of devices attached'' @ [CHR 0x0A] @ ''emulator-5554''
                    @ [CHR 0x09] @ ''device'' @ [CHR 0x0A, CHR 0x0A], stderr = [], return_code = 0\<rparr>,
            host_devices)"
    by (simp add: host_ops_def host_cmd_def host_devices_def)
  show ?thesis
    using assms adb_listing
    by (simp add: serials_def Let_def bnd_def call_def host_config_def start_def c)
qed

lemma run_override:
  "serials host_ops host_config ((start host_devices)\<lparr>environ := [''ANDROID_SERIAL'' \<mapsto> ''abc,def'']\<rparr>) =
     (Inr [''abc'', ''def''], (start host_devices)\<lparr>environ := [''ANDROID_SERIAL'' \<mapsto> ''abc,def'']\<rparr>)"
  by (simp add: serials_def Let_def ret_def truthy_def start_def split_override)

text \<open>
  C7, amended. While no list of serials is kept in the object: when \<^verbatim>\<open>ANDROID_SERIAL\<close>
  is set to a string that is not empty, the property returns that string split at the
  commas and does nothing else (the bridge is not called). When the variable is not set,
  or set to the empty string, the bridge is asked for its \<^verbatim>\<open>devices\<close>; of the lines of its
  answer, the empty ones and those that start with \<^verbatim>\<open>*\<close> or \<^verbatim>\<open>List \<close> are left out,
  and where each line that is left has a field, the property returns the first fields
  of these lines, in their order.
\<close>

theorem serials_override_or_enumeration:
  assumes "priv_serials s = None"
  shows "(\<forall>v. environ s ''ANDROID_SERIAL'' = Some v \<and> v \<noteq> [] \<longrightarrow>
            serials ops cfg s = (Inr (split_char CHR '','' v), s))
       \<and> (environ s ''ANDROID_SERIAL'' = None \<or> environ s ''ANDROID_SERIAL'' = Some [] \<longrightarrow>
            (\<forall>r w'. cmd ops (adb_executable cfg # adb_args cfg @ [''devices''])
                       [(''get_stdout'', ''True'')] (world s) = (Inr r, w')
                  \<and> list_all (\<lambda>l. split_ws l \<noteq> []) (filter device_line (splitlines (stdout r)))
               \<longrightarrow> fst (serials ops cfg s) =
                     Inr (map (\<lambda>l. hd (split_ws l)) (filter device_line (splitlines (stdout r))))
                 \<and> trace (snd (serials ops cfg s)) =
                     trace s @ [Cmd (adb_executable cfg # adb_args cfg @ [''devices''])
                                  [(''get_stdout'', ''True'')]]))"
  using assms
  by (auto simp: serials_def truthy_def Let_def ret_def bnd_def call_def serials_loop_fields)

theorem serials_override_or_enumeration_witness:
  "priv_serials ((start host_devices)\<lparr>environ := [''ANDROID_SERIAL'' \<mapsto> ''abc,def'']\<rparr>) = None
   \<and> serials host_ops host_config ((start host_devices)\<lparr>environ := [''ANDROID_SERIAL'' \<mapsto> ''abc,def'']\<rparr>) =
       (Inr [''abc'', ''def''], (start host_devices)\<lparr>environ := [''ANDROID_SERIAL'' \<mapsto> ''abc,def'']\<rparr>)
   \<and> priv_serials (start host_devices) = None
   \<and> environ (start host_devices) ''ANDROID_SERIAL'' = None
   \<and> fst (serials host_ops host_config (start host_devices)) = Inr [''emulator-5554'']
   \<and> trace (snd (serials host_ops host_config (start host_devices))) =
       [Cmd [''/g/android-sdk/platform-tools/adb'', ''devices''] [(''get_stdout'', ''True'')]]"
proof -
  let ?sa = "(start host_devices)\<lparr>environ := [''ANDROID_SERIAL'' \<mapsto> ''abc,def'']\<rparr>"
  let ?out = "''List of devices attached'' @ [CHR 0x0A] @ ''emulator-5554''
                    @ [CHR 0x09] @ ''device'' @ [CHR 0x0A, CHR 0x0A]"
  have na: "priv_serials ?sa = None" and nb: "priv_serials (start host_devices) = None"
    and eb: "environ (start host_devices) ''ANDROID_SERIAL'' = None"
    and ea: "environ ?sa ''ANDROID_SERIAL'' = Some ''abc,def''"
    by (simp_all add: start_def)
  have a: "serials host_ops host_config ?sa = (Inr [''abc'', ''def''], ?sa)"
    using serials_override_or_enumeration [OF na, of host_ops host_config] ea split_override
    by simp
  have c: "cmd host_ops (adb_executable host_config # adb_args host_config @ [''devices''])
             [(''get_stdout'', ''True'')] (world (start host_devices)) =
           (Inr \<lparr>stdout = ?out, stderr = [], return_code = 0\<rparr>, host_devices)"
    by (simp add: host_ops_def host_cmd_def host_devices_def host_config_def start_def)
  have ok: "list_all (\<lambda>l. split_ws l \<noteq> [])
              (filter device_line (splitlines (stdout \<lparr>stdout = ?out, stderr = [], return_code = 0\<rparr>)))"
    using adb_listing_lines adb_listing_fields by simp
  have b: "fst (serials host_ops host_config (start host_devices)) = Inr [''emulator-5554'']
     \<and> trace (snd (serials host_ops host_config (start host_devices))) =
       [Cmd [''/g/android-sdk/platform-tools/adb'', ''devices''] [(''get_stdout'', ''True'')]]"
    using serials_override_or_enumeration [OF nb, of host_ops host_config] eb c ok
      adb_listing_lines adb_listing_fields
    by (simp add: host_config_def start_def)
  show ?thesis using na nb eb a b by blast
qed

text \<open>
  The claim as it stands returns the split value whenever the variable is set. Set to
  the empty string it is ignored, and the bridge is asked.
\<close>

theorem empty_override_asks_the_bridge:
  "environ ((start host_devices)\<lparr>environ := [''ANDROID_SERIAL'' \<mapsto> []]\<rparr>) ''ANDROID_SERIAL'' = Some []
   \<and> split_char CHR '','' [] = [[]]
   \<and> serials host_ops host_config ((start host_devices)\<lparr>environ := [''ANDROID_SERIAL'' \<mapsto> []]\<rparr>) =
     (Inr [''emulator-5554''],
      (start host_devices)
        \<lparr>environ := [''ANDROID_SERIAL'' \<mapsto> []],
         trace := [Cmd [''/g/android-sdk/platform-tools/adb'', ''devices''] [(''get_stdout'', ''True'')]],
         priv_serials := Some [''emulator-5554'']\<rparr>)"
proof -
  have "\<not> truthy ([''ANDROID_SERIAL'' \<mapsto> []] ''ANDROID_SERIAL'')"
    by (simp add: truthy_def)
  then show ?thesis using run_devices by (simp add: start_def)
qed

text \<open>
  C8, amended. A list that came from the bridge is kept: once a call has returned it
  (from the bridge, or from the object where it was kept before), every later call, in
  whatever environment and on whatever host, returns the same list and does nothing: no
  command, no change of the state. A list that came from \<^verbatim>\<open>ANDROID_SERIAL\<close> is not
  kept: that call leaves the object as it was.
\<close>

theorem serials_cached_after_enumeration:
  "(\<forall>found s1. serials ops cfg s = (Inr found, s1)
        \<and> (priv_serials s \<noteq> None \<or> \<not> truthy (environ s ''ANDROID_SERIAL'')) \<longrightarrow>
        priv_serials s1 = Some found
      \<and> (\<forall>ops2 cfg2 s2. priv_serials s2 = priv_serials s1 \<longrightarrow>
            serials ops2 cfg2 s2 = (Inr found, s2)))
   \<and> (priv_serials s = None \<and> truthy (environ s ''ANDROID_SERIAL'') \<longrightarrow>
        serials ops cfg s = (Inr (split_char CHR '','' (the (environ s ''ANDROID_SERIAL''))), s))"
  by (auto simp: serials_def Let_def ret_def bnd_def call_def raise_def
      split: option.splits sum.splits prod.splits)

theorem serials_cached_after_enumeration_witness:
  "serials host_ops host_config (start host_devices) =
     (Inr [''emulator-5554''],
      (start host_devices)
        \<lparr>trace := [Cmd [''/g/android-sdk/platform-tools/adb'', ''devices''] [(''get_stdout'', ''True'')]],
         priv_serials := Some [''emulator-5554'']\<rparr>)
   \<and> serials host_ops host_config
        ((start host_installed)
           \<lparr>environ := [''ANDROID_SERIAL'' \<mapsto> ''abc,def''], priv_serials := Some [''emulator-5554'']\<rparr>) =
     (Inr [''emulator-5554''],
      (start host_installed)
           \<lparr>environ := [''ANDROID_SERIAL'' \<mapsto> ''abc,def''], priv_serials := Some [''emulator-5554'']\<rparr>)
   \<and> serials host_ops host_config ((start host_devices)\<lparr>environ := [''ANDROID_SERIAL'' \<mapsto> ''abc,def'']\<rparr>) =
     (Inr [''abc'', ''def''], (start host_devices)\<lparr>environ := [''ANDROID_SERIAL'' \<mapsto> ''abc,def'']\<rparr>)"
proof -
  let ?s1 = "(start host_devices)
        \<lparr>trace := [Cmd [''/g/android-sdk/platform-tools/adb'', ''devices''] [(''get_stdout'', ''True'')]],
         priv_serials := Some [''emulator-5554'']\<rparr>"
  let ?s2 = "(start host_installed)
           \<lparr>environ := [''ANDROID_SERIAL'' \<mapsto> ''abc,def''], priv_serials := Some [''emulator-5554'']\<rparr>"
  let ?sa = "(start host_devices)\<lparr>environ := [''ANDROID_SERIAL'' \<mapsto> ''abc,def'']\<rparr>"
  have "\<not> truthy (Map.empty ''ANDROID_SERIAL'')" by (simp add: truthy_def)
  from run_devices [OF this]
  have run: "serials host_ops host_config (start host_devices) = (Inr [''emulator-5554''], ?s1)"
    by (simp add: start_def)
  have quiet: "\<not> truthy (environ (start host_devices) ''ANDROID_SERIAL'')"
    by (simp add: truthy_def start_def)
  have same: "priv_serials ?s2 = priv_serials ?s1" by simp
  have later: "serials host_ops host_config ?s2 = (Inr [''emulator-5554''], ?s2)"
    using serials_cached_after_enumeration [of host_ops host_config "start host_devices"]
      run quiet same by blast
  have over: "priv_serials ?sa = None \<and> truthy (environ ?sa ''ANDROID_SERIAL'')"
    by (simp add: start_def truthy_def)
  have a: "serials host_ops host_config ?sa = (Inr [''abc'', ''def''], ?sa)"
    using serials_cached_after_enumeration [of host_ops host_config ?sa] over split_override
    by (simp add: start_def)
  show ?thesis using run later a by blast
qed

text \<open>
  The claim as it stands keeps the first list also when it came from the variable.
  Nothing is kept then: with \<^verbatim>\<open>ANDROID_SERIAL\<close> gone from the environment, the next call
  asks the bridge and returns another list.
\<close>

theorem override_is_not_cached:
  "serials host_ops host_config ((start host_devices)\<lparr>environ := [''ANDROID_SERIAL'' \<mapsto> ''abc,def'']\<rparr>) =
     (Inr [''abc'', ''def''], (start host_devices)\<lparr>environ := [''ANDROID_SERIAL'' \<mapsto> ''abc,def'']\<rparr>)
   \<and> priv_serials ((start host_devices)\<lparr>environ := [''ANDROID_SERIAL'' \<mapsto> ''abc,def'']\<rparr>) = None
   \<and> serials host_ops host_config
       ((start host_devices)\<lparr>environ := [''ANDROID_SERIAL'' \<mapsto> ''abc,def'']\<rparr>\<lparr>environ := Map.empty\<rparr>) =
     (Inr [''emulator-5554''],
      (start host_devices)
        \<lparr>trace := [Cmd [''/g/android-sdk/platform-tools/adb'', ''devices''] [(''get_stdout'', ''True'')]],
         priv_serials := Some [''emulator-5554'']\<rparr>)"
proof -
  have "\<not> truthy (Map.empty ''ANDROID_SERIAL'')" by (simp add: truthy_def)
  from run_devices [OF this] show ?thesis using run_override by (simp add: start_def)
qed

subsection \<open>The checkout of python-for-android\<close>








lemma seq_Inr: "a s = (Inr (), s1) \<Longrightarrow> seq a b s = b s1"
  by (simp add: seq_def bnd_def)

lemma seq_Inl: "a s = (Inl e, s1) \<Longrightarrow> seq a b s = (Inl e, s1)"
  by (simp add: seq_def bnd_def)









end
